theory Spec2Isabelle
  imports Complex_Main
begin

section \<open>The distillation trainer \<open>core/new_trainer.py\<close>\<close>

text \<open>
  \<open>do_train\<close> drives objects owned by the deep-learning framework: the student
  \<open>model\<close>, the \<open>teacher\<close>, the \<open>optimizer\<close>, the \<open>loss_factory\<close>, the TensorBoard writer and
  the logger. The embedding keeps the control flow, the arithmetic on the losses, the
  meters and the writer dictionary as the source has them, and records every call made on
  a framework object as an event of a trace, in program order. What a framework call
  returns is an input: each batch carries the outputs the two networks produced on it
  and the three clock readings taken while it was processed; the loss factory and the
  tensor reduction \<open>mean(dim=0)\<close> are function parameters. Scalar tensors are idealised as
  real numbers. The device transfer \<open>x.cuda(non_blocking=True)\<close> does not change a value
  and is the identity here.
\<close>

subsection \<open>Python errors and the result type\<close>

datatype py_error = IndexError | KeyError | ZeroDivisionError | AttributeError | TypeError

type_synonym 'a result = "py_error + 'a"

definition ebind :: "'a result \<Rightarrow> ('a \<Rightarrow> 'b result) \<Rightarrow> 'b result" where
  "ebind m f = (case m of Inl e \<Rightarrow> Inl e | Inr x \<Rightarrow> f x)"

text \<open>\<open>xs[i]\<close> for an index that is never negative.\<close>

definition get :: "'a list \<Rightarrow> nat \<Rightarrow> 'a result" where
  "get xs i = (if i < length xs then Inr (xs ! i) else Inl IndexError)"

text \<open>\<open>for i in idxs: s = body(i, s)\<close>, stopping at the first exception.\<close>

fun for_each :: "('i \<Rightarrow> 's \<Rightarrow> 's result) \<Rightarrow> 'i list \<Rightarrow> 's \<Rightarrow> 's result" where
  "for_each body [] s = Inr s"
| "for_each body (i # idxs) s = ebind (body i s) (for_each body idxs)"

text \<open>\<open>range(n)\<close> for a Python integer \<open>n\<close>: empty when \<open>n\<close> is not positive.\<close>

definition py_range :: "int \<Rightarrow> nat list" where
  "py_range n = [0..<nat n]"

definition py_truediv :: "real \<Rightarrow> real \<Rightarrow> real result" where
  "py_truediv a b = (if b = 0 then Inl ZeroDivisionError else Inr (a / b))"

subsection \<open>Strings: \<open>str.format\<close> on integers, \<open>os.path.join\<close>\<close>

definition digit_char :: "nat \<Rightarrow> char" where
  "digit_char d = ''0123456789'' ! d"

function str_nat :: "nat \<Rightarrow> string" where
  "str_nat n = (if n < 10 then [digit_char n] else str_nat (n div 10) @ [digit_char (n mod 10)])"
  by pat_completeness auto
termination
  by (relation "measure id") auto

declare str_nat.simps [simp del]

definition str_int :: "int \<Rightarrow> string" where
  "str_int k = (if k < 0 then CHR ''-'' # str_nat (nat (- k)) else str_nat (nat k))"

text \<open>\<open>os.path.join(a, b)\<close> with the POSIX separator.\<close>

definition path_join :: "string \<Rightarrow> string \<Rightarrow> string" where
  "path_join a b =
     (if take 1 b = ''/'' then b
      else if a = [] \<or> last a = CHR ''/'' then a @ b
      else a @ ''/'' @ b)"

subsection \<open>Loss values\<close>

text \<open>
  \<open>student_loss\<close> and \<open>teacher_loss\<close> start as the Python number \<open>0\<close> and become tensors
  with the first tensor added to them. Only a tensor has \<open>backward()\<close>.
\<close>

datatype pyval = PyNum real | Tensor real

fun val_of :: "pyval \<Rightarrow> real" where
  "val_of (PyNum r) = r"
| "val_of (Tensor r) = r"

text \<open>\<open>v + t\<close> for a scalar tensor \<open>t\<close>.\<close>

definition add_tensor :: "pyval \<Rightarrow> real \<Rightarrow> pyval" where
  "add_tensor v t = Tensor (val_of v + t)"

text \<open>\<open>v * a\<close> and \<open>a * v\<close> for a Python float \<open>a\<close>.\<close>

fun mul_num :: "pyval \<Rightarrow> real \<Rightarrow> pyval" where
  "mul_num (PyNum r) a = PyNum (r * a)"
| "mul_num (Tensor r) a = Tensor (r * a)"

fun num_mul :: "real \<Rightarrow> pyval \<Rightarrow> pyval" where
  "num_mul a (PyNum r) = PyNum (a * r)"
| "num_mul a (Tensor r) = Tensor (a * r)"

fun py_add :: "pyval \<Rightarrow> pyval \<Rightarrow> pyval" where
  "py_add (PyNum a) (PyNum b) = PyNum (a + b)"
| "py_add (PyNum a) (Tensor b) = Tensor (a + b)"
| "py_add (Tensor a) v = Tensor (a + val_of v)"

subsection \<open>Meters\<close>

text \<open>
  \<open>AverageMeter\<close> comes from \<open>utils.utils\<close>, which is not among the sources. A meter is
  modelled by the calls \<open>update(val, n)\<close> it has received, oldest first; what its
  attribute \<open>val\<close> reads is the parameter \<open>meter_val\<close> of the framework, and the
  attribute \<open>avg\<close> is only ever formatted into the log message, which carries the meter.
\<close>

type_synonym meter = "(real \<times> nat) list"

definition AverageMeter :: meter where
  "AverageMeter = []"

definition meter_update :: "meter \<Rightarrow> real \<Rightarrow> nat \<Rightarrow> meter" where
  "meter_update m v n = m @ [(v, n)]"

text \<open>\<open>meters[idx].update(v, n)\<close>.\<close>

definition update_at :: "meter list \<Rightarrow> nat \<Rightarrow> real \<Rightarrow> nat \<Rightarrow> meter list result" where
  "update_at ms idx v n =
     (if idx < length ms then Inr (ms[idx := meter_update (ms ! idx) v n]) else Inl IndexError)"

subsection \<open>Configuration, batches, framework, events and state\<close>

record config =
  NUM_STAGES :: int
  PRINT_FREQ :: int
  RANK :: int
  OUTPUT_SIZE :: "int list"

text \<open>
  One element of \<open>data_loader\<close>, of tensors of type \<open>'x\<close>, together with what the
  framework returns while it is processed: \<open>images.size(0)\<close>, \<open>model(images)\<close>,
  \<open>teacher(images)\<close> and the readings of \<open>time.time()\<close> at lines 37, 102 and 103.
\<close>

record 'x batch =
  images_size0 :: nat
  heatmaps :: "'x list"
  masks :: "'x list"
  joints :: "'x list"
  student_outputs :: "'x list"
  teacher_outputs :: "'x list"
  clock_data :: real
  clock_batch :: real
  clock_end :: real

type_synonym 'x losses = "'x option list \<times> 'x option list \<times> 'x option list"

record 'x framework =
  loss_factory :: "'x list \<Rightarrow> 'x list \<Rightarrow> 'x list \<Rightarrow> 'x list \<Rightarrow> 'x losses"
  mean_dim0 :: "'x \<Rightarrow> real"
  meter_val :: "meter \<Rightarrow> real"

datatype who = Student | Teacher

datatype pyobj = SummaryWriter | PyInt int

text \<open>One segment of \<open>_get_loss_info\<close>: stage index, loss name and the meter formatted.\<close>

type_synonym loss_info = "(nat \<times> string \<times> meter) list"

record log_msg =
  msg_epoch :: int
  msg_index :: nat
  msg_total :: nat
  msg_batch_time :: meter
  msg_speed :: real
  msg_data_time :: meter
  msg_heatmaps_loss :: loss_info
  msg_push_loss :: loss_info
  msg_pull_loss :: loss_info

text \<open>
  The calls on framework objects. \<open>Set_train\<close>, \<open>Set_eval\<close>, \<open>No_grad_enter\<close> and
  \<open>No_grad_exit\<close> stand for \<open>m.train()\<close>, \<open>m.eval()\<close> and entering and leaving
  \<open>torch.no_grad()\<close>; \<open>Loss_backward\<close> is \<open>loss.backward()\<close> and \<open>Opt_backward\<close> is
  \<open>optimizer.backward(loss)\<close>.
\<close>

datatype 'x event =
    Set_train who
  | Set_eval who
  | No_grad_enter
  | No_grad_exit
  | Forward who
  | Zero_grad
  | Loss_backward real
  | Opt_backward pyval
  | Opt_step
  | Log_info log_msg
  | Add_scalar string real pyobj
  | Save_debug_images 'x 'x 'x string

record 'x state =
  batch_time :: meter
  data_time :: meter
  heatmaps_loss_meter :: "meter list"
  push_loss_meter :: "meter list"
  pull_loss_meter :: "meter list"
  end_clock :: real
  writer_dict :: "string \<rightharpoonup> pyobj"
  trace :: "'x event list"

definition emit :: "'x event \<Rightarrow> 'x state \<Rightarrow> 'x state" where
  "emit e s = s\<lparr>trace := trace s @ [e]\<rparr>"

definition lookup :: "(string \<rightharpoonup> pyobj) \<Rightarrow> string \<Rightarrow> pyobj result" where
  "lookup d k = (case d k of None \<Rightarrow> Inl KeyError | Some v \<Rightarrow> Inr v)"

subsection \<open>The loss accumulation loops (lines 58 to 89)\<close>

type_synonym acc = "pyval \<times> meter list \<times> meter list \<times> meter list"

text \<open>The optional push or pull part of a stage; \<open>ms\<close> is the meter list it reports to.\<close>

definition student_part :: "'x framework \<Rightarrow> nat \<Rightarrow> 'x option \<Rightarrow> nat \<Rightarrow> pyval \<times> meter list
    \<Rightarrow> (pyval \<times> meter list) result" where
  "student_part fw n part idx a =
     (case part of
        None \<Rightarrow> Inr a
      | Some t \<Rightarrow>
          ebind (update_at (snd a) idx (mean_dim0 fw t) n)
            (\<lambda>ms. Inr (add_tensor (fst a) (mean_dim0 fw t), ms)))"

text \<open>The body of the loop of lines 59 to 77, for stage \<open>idx\<close>; \<open>n\<close> is \<open>images.size(0)\<close>.\<close>

definition student_stage :: "'x framework \<Rightarrow> nat \<Rightarrow> 'x losses \<Rightarrow> nat \<Rightarrow> acc \<Rightarrow> acc result" where
  "student_stage fw n ls idx a =
     (case ls of (hs, ps, us) \<Rightarrow>
      case a of (student_loss, hm, pm, um) \<Rightarrow>
        ebind (get hs idx) (\<lambda>h.
          case h of
            None \<Rightarrow> Inr a
          | Some ht \<Rightarrow>
              ebind (update_at hm idx (mean_dim0 fw ht) n) (\<lambda>hm1.
              ebind (get ps idx) (\<lambda>p.
              ebind (student_part fw n p idx (add_tensor student_loss (mean_dim0 fw ht), pm))
                (\<lambda>(l2, pm2).
              ebind (get us idx) (\<lambda>u.
              ebind (student_part fw n u idx (l2, um)) (\<lambda>(l3, um3).
                Inr (l3, hm1, pm2, um3))))))))"

definition student_loop :: "'x framework \<Rightarrow> config \<Rightarrow> nat \<Rightarrow> 'x losses
    \<Rightarrow> meter list \<times> meter list \<times> meter list \<Rightarrow> acc result" where
  "student_loop fw cfg n ls ms =
     for_each (student_stage fw n ls) (py_range (NUM_STAGES cfg)) (PyNum 0, ms)"

definition teacher_part :: "'x framework \<Rightarrow> 'x option \<Rightarrow> pyval \<Rightarrow> pyval" where
  "teacher_part fw part l = (case part of None \<Rightarrow> l | Some t \<Rightarrow> add_tensor l (mean_dim0 fw t))"

text \<open>The body of the loop of lines 80 to 89.\<close>

definition teacher_stage :: "'x framework \<Rightarrow> 'x losses \<Rightarrow> nat \<Rightarrow> pyval \<Rightarrow> pyval result" where
  "teacher_stage fw ls idx teacher_loss =
     (case ls of (hs, ps, us) \<Rightarrow>
        ebind (get hs idx) (\<lambda>h.
          case h of
            None \<Rightarrow> Inr teacher_loss
          | Some ht \<Rightarrow>
              ebind (get ps idx) (\<lambda>p.
              ebind (get us idx) (\<lambda>u.
                Inr (teacher_part fw u
                      (teacher_part fw p (add_tensor teacher_loss (mean_dim0 fw ht))))))))"

definition teacher_loop :: "'x framework \<Rightarrow> config \<Rightarrow> 'x losses \<Rightarrow> pyval result" where
  "teacher_loop fw cfg ls = for_each (teacher_stage fw ls) (py_range (NUM_STAGES cfg)) (PyNum 0)"

subsection \<open>Blending and the update step (lines 91 to 99)\<close>

definition alpha :: real where
  "alpha = 0.5"

definition blend :: "pyval \<Rightarrow> pyval \<Rightarrow> pyval" where
  "blend student_loss teacher_loss =
     py_add (mul_num student_loss alpha) (num_mul (1 - alpha) teacher_loss)"

definition backward_call :: "bool \<Rightarrow> pyval \<Rightarrow> 'x event result" where
  "backward_call fp16 loss =
     (if fp16 then Inr (Opt_backward loss)
      else case loss of Tensor r \<Rightarrow> Inr (Loss_backward r) | PyNum r \<Rightarrow> Inl AttributeError)"

definition backprop :: "bool \<Rightarrow> pyval \<Rightarrow> 'x state \<Rightarrow> 'x state result" where
  "backprop fp16 loss s =
     ebind (backward_call fp16 loss) (\<lambda>bw. Inr (emit Opt_step (emit bw (emit Zero_grad s))))"

subsection \<open>Logging (lines 105 to 149) and \<open>_get_loss_info\<close>\<close>

definition get_loss_info :: "meter list \<Rightarrow> string \<Rightarrow> loss_info" where
  "get_loss_info loss_meters loss_name =
     map (\<lambda>(i, m). (i, loss_name, m)) (List.enumerate 0 loss_meters)"

definition scalar_tag :: "nat \<Rightarrow> string \<Rightarrow> string" where
  "scalar_tag k name = ''train_stage'' @ str_nat k @ ''_'' @ name @ ''_loss''"

text \<open>The body of the loop of lines 123 to 138, at batch index \<open>i\<close> and stage \<open>idx\<close>.\<close>

definition scalar_step :: "'x framework \<Rightarrow> nat \<Rightarrow> pyobj \<Rightarrow> pyobj \<Rightarrow> nat \<Rightarrow> 'x state
    \<Rightarrow> 'x state result" where
  "scalar_step fw i writer global_steps idx s =
     (case writer of
        PyInt k \<Rightarrow> Inl AttributeError
      | SummaryWriter \<Rightarrow>
          ebind (get (heatmaps_loss_meter s) idx) (\<lambda>hm.
          ebind (get (push_loss_meter s) idx) (\<lambda>pm.
          ebind (get (pull_loss_meter s) idx) (\<lambda>um.
            Inr (emit (Add_scalar (scalar_tag idx ''pull'') (meter_val fw um) global_steps)
                (emit (Add_scalar (scalar_tag idx ''push'') (meter_val fw pm) global_steps)
                (emit (Add_scalar (scalar_tag i ''heatmaps'') (meter_val fw hm) global_steps)
                   s)))))))"

text \<open>The body of the loop of lines 142 to 149.\<close>

definition save_step :: "config \<Rightarrow> 'x batch \<Rightarrow> string \<Rightarrow> nat \<Rightarrow> 'x state \<Rightarrow> 'x state result" where
  "save_step cfg b prefix scale_idx s =
     ebind (get (OUTPUT_SIZE cfg) scale_idx) (\<lambda>sz.
     ebind (get (heatmaps b) scale_idx) (\<lambda>h.
     ebind (get (masks b) scale_idx) (\<lambda>m.
     ebind (get (student_outputs b) scale_idx) (\<lambda>out.
       Inr (emit (Save_debug_images h m out (prefix @ ''_output_'' @ str_int sz)) s)))))"

definition bump_steps :: "pyobj \<Rightarrow> pyobj result" where
  "bump_steps global_steps =
     (case global_steps of PyInt k \<Rightarrow> Inr (PyInt (k + 1)) | SummaryWriter \<Rightarrow> Inl TypeError)"

definition log_step :: "'x framework \<Rightarrow> config \<Rightarrow> int \<Rightarrow> nat \<Rightarrow> string \<Rightarrow> nat \<Rightarrow> 'x batch
    \<Rightarrow> 'x state \<Rightarrow> 'x state result" where
  "log_step fw cfg epoch n_batches output_dir i b s =
     (if PRINT_FREQ cfg = 0 then Inl ZeroDivisionError
      else if int i mod PRINT_FREQ cfg = 0 \<and> RANK cfg = 0 then
        ebind (py_truediv (real (images_size0 b)) (meter_val fw (batch_time s))) (\<lambda>speed.
        ebind (lookup (writer_dict s) ''writer'') (\<lambda>writer.
        ebind (lookup (writer_dict s) ''train_global_steps'') (\<lambda>global_steps.
        ebind (for_each (scalar_step fw i writer global_steps) (py_range (NUM_STAGES cfg))
                (emit (Log_info
                   \<lparr>msg_epoch = epoch, msg_index = i, msg_total = n_batches,
                    msg_batch_time = batch_time s, msg_speed = speed,
                    msg_data_time = data_time s,
                    msg_heatmaps_loss = get_loss_info (heatmaps_loss_meter s) ''heatmaps'',
                    msg_push_loss = get_loss_info (push_loss_meter s) ''push'',
                    msg_pull_loss = get_loss_info (pull_loss_meter s) ''pull''\<rparr>) s))
          (\<lambda>s2.
        ebind (bump_steps global_steps) (\<lambda>steps.
          for_each
            (save_step cfg b (path_join output_dir ''train'' @ ''_'' @ str_nat i))
            [0..<length (student_outputs b)]
            (s2\<lparr>writer_dict := (writer_dict s2)(''train_global_steps'' \<mapsto> steps)\<rparr>))))))
      else Inr s)"

subsection \<open>One iteration of the loop of line 35, and \<open>do_train\<close>\<close>

definition student_losses :: "'x framework \<Rightarrow> 'x batch \<Rightarrow> 'x losses" where
  "student_losses fw b = loss_factory fw (student_outputs b) (heatmaps b) (masks b) (joints b)"

definition teacher_losses :: "'x framework \<Rightarrow> 'x batch \<Rightarrow> 'x losses" where
  "teacher_losses fw b = loss_factory fw (teacher_outputs b) (heatmaps b) (masks b) (joints b)"

definition train_iter :: "'x framework \<Rightarrow> config \<Rightarrow> bool \<Rightarrow> int \<Rightarrow> nat \<Rightarrow> string \<Rightarrow> nat
    \<Rightarrow> 'x batch \<Rightarrow> 'x state \<Rightarrow> 'x state result" where
  "train_iter fw cfg fp16 epoch n_batches output_dir i b s =
     (let s1 = emit (Forward Teacher) (emit (Forward Student)
                 (s\<lparr>data_time := meter_update (data_time s) (clock_data b - end_clock s) 1\<rparr>))
      in
        ebind (student_loop fw cfg (images_size0 b) (student_losses fw b)
                 (heatmaps_loss_meter s1, push_loss_meter s1, pull_loss_meter s1))
          (\<lambda>(student_loss, hm, pm, um).
        ebind (teacher_loop fw cfg (teacher_losses fw b)) (\<lambda>teacher_loss.
        ebind (backprop fp16 (blend student_loss teacher_loss)
                 (s1\<lparr>heatmaps_loss_meter := hm, push_loss_meter := pm, pull_loss_meter := um\<rparr>))
          (\<lambda>s2.
          log_step fw cfg epoch n_batches output_dir i b
            (s2\<lparr>batch_time := meter_update (batch_time s2) (clock_batch b - end_clock s2) 1,
                end_clock := clock_end b\<rparr>)))))"

definition init_state :: "config \<Rightarrow> (string \<rightharpoonup> pyobj) \<Rightarrow> real \<Rightarrow> 'x state" where
  "init_state cfg wd t0 =
     \<lparr>batch_time = AverageMeter, data_time = AverageMeter,
      heatmaps_loss_meter = map (\<lambda>_. AverageMeter) (py_range (NUM_STAGES cfg)),
      push_loss_meter = map (\<lambda>_. AverageMeter) (py_range (NUM_STAGES cfg)),
      pull_loss_meter = map (\<lambda>_. AverageMeter) (py_range (NUM_STAGES cfg)),
      end_clock = t0, writer_dict = wd, trace = [Set_train Student]\<rparr>"

text \<open>
  \<open>do_train\<close>; \<open>t0\<close> is the reading of \<open>time.time()\<close> at line 34. The argument
  \<open>tb_log_dir\<close> of the source is never used. The function returns nothing: its result
  here is the final state, with the writer dictionary it mutated and the trace.
\<close>

definition do_train :: "'x framework \<Rightarrow> config \<Rightarrow> 'x batch list \<Rightarrow> int \<Rightarrow> string
    \<Rightarrow> (string \<rightharpoonup> pyobj) \<Rightarrow> bool \<Rightarrow> real \<Rightarrow> 'x state result" where
  "do_train fw cfg data_loader epoch output_dir wd fp16 t0 =
     for_each (\<lambda>(i, b). train_iter fw cfg fp16 epoch (length data_loader) output_dir i b)
       (List.enumerate 0 data_loader) (init_state cfg wd t0)"

subsection \<open>Closed forms of what an iteration emits\<close>

text \<open>
  The definitions of this section are not translations of the source: they state, in closed
  form, the events an iteration appends to the trace and the values it accumulates, and
  the lemmas below prove that the functions above compute exactly these.
\<close>

text \<open>The three \<open>add_scalar\<close> calls of stage \<open>idx\<close> at batch \<open>i\<close>.\<close>

definition scalar_events :: "'x framework \<Rightarrow> nat \<Rightarrow> pyobj \<Rightarrow> 'x state \<Rightarrow> nat \<Rightarrow> 'x event list" where
  "scalar_events fw i gs s idx =
     [Add_scalar (scalar_tag i ''heatmaps'') (meter_val fw (heatmaps_loss_meter s ! idx)) gs,
      Add_scalar (scalar_tag idx ''push'') (meter_val fw (push_loss_meter s ! idx)) gs,
      Add_scalar (scalar_tag idx ''pull'') (meter_val fw (pull_loss_meter s ! idx)) gs]"

text \<open>The call \<open>save_debug_images\<close> for scale \<open>k\<close>.\<close>

definition save_event :: "config \<Rightarrow> 'x batch \<Rightarrow> string \<Rightarrow> nat \<Rightarrow> 'x event" where
  "save_event cfg b prefix k =
     Save_debug_images (heatmaps b ! k) (masks b ! k) (student_outputs b ! k)
       (prefix @ ''_output_'' @ str_int (OUTPUT_SIZE cfg ! k))"

text \<open>The arguments of the message given to \<open>logger.info\<close>.\<close>

definition log_message :: "'x framework \<Rightarrow> int \<Rightarrow> nat \<Rightarrow> nat \<Rightarrow> 'x batch \<Rightarrow> 'x state \<Rightarrow> log_msg" where
  "log_message fw epoch n_batches i b s =
     \<lparr>msg_epoch = epoch, msg_index = i, msg_total = n_batches,
      msg_batch_time = batch_time s,
      msg_speed = real (images_size0 b) / meter_val fw (batch_time s),
      msg_data_time = data_time s,
      msg_heatmaps_loss = get_loss_info (heatmaps_loss_meter s) ''heatmaps'',
      msg_push_loss = get_loss_info (push_loss_meter s) ''push'',
      msg_pull_loss = get_loss_info (pull_loss_meter s) ''pull''\<rparr>"

text \<open>Everything a logging iteration emits, in order.\<close>

definition log_events :: "'x framework \<Rightarrow> config \<Rightarrow> int \<Rightarrow> nat \<Rightarrow> string \<Rightarrow> nat \<Rightarrow> 'x batch
    \<Rightarrow> pyobj \<Rightarrow> 'x state \<Rightarrow> 'x event list" where
  "log_events fw cfg epoch n_batches output_dir i b gs s =
     Log_info (log_message fw epoch n_batches i b s)
       # concat (map (scalar_events fw i gs s) (py_range (NUM_STAGES cfg)))
       @ map (save_event cfg b (path_join output_dir ''train'' @ ''_'' @ str_nat i))
           [0..<length (student_outputs b)]"

text \<open>The condition of line 105.\<close>

definition logging_due :: "config \<Rightarrow> nat \<Rightarrow> bool" where
  "logging_due cfg i \<longleftrightarrow> int i mod PRINT_FREQ cfg = 0 \<and> RANK cfg = 0"

text \<open>What an optional loss adds: its mean over dimension 0, or nothing.\<close>

definition part_term :: "'x framework \<Rightarrow> 'x option \<Rightarrow> real" where
  "part_term fw part = (case part of None \<Rightarrow> 0 | Some t \<Rightarrow> mean_dim0 fw t)"

text \<open>
  What stage \<open>idx\<close> adds to \<open>student_loss\<close> or \<open>teacher_loss\<close>: nothing when its heatmaps
  loss is \<open>None\<close>, else the heatmaps loss and those of the push and pull losses that are there.
\<close>

definition stage_term :: "'x framework \<Rightarrow> 'x losses \<Rightarrow> nat \<Rightarrow> real" where
  "stage_term fw ls idx =
     (case ls of (hs, ps, us) \<Rightarrow>
        case hs ! idx of
          None \<Rightarrow> 0
        | Some h \<Rightarrow> mean_dim0 fw h + part_term fw (ps ! idx) + part_term fw (us ! idx))"

definition nested_sum :: "'x framework \<Rightarrow> config \<Rightarrow> 'x losses \<Rightarrow> real" where
  "nested_sum fw cfg ls = sum_list (map (stage_term fw ls) (py_range (NUM_STAGES cfg)))"

text \<open>What an optional loss does to its meter: one \<open>update\<close> with weight \<open>n\<close>, or nothing.\<close>

definition part_meter :: "'x framework \<Rightarrow> nat \<Rightarrow> 'x option \<Rightarrow> meter \<Rightarrow> meter" where
  "part_meter fw n part m = (case part of None \<Rightarrow> m | Some t \<Rightarrow> meter_update m (mean_dim0 fw t) n)"

text \<open>The state of an iteration when line 105 is reached.\<close>

definition iter_state :: "'x batch \<Rightarrow> meter list \<Rightarrow> meter list \<Rightarrow> meter list \<Rightarrow> 'x event
    \<Rightarrow> 'x state \<Rightarrow> 'x state" where
  "iter_state b hm pm um bw s =
     s\<lparr>data_time := meter_update (data_time s) (clock_data b - end_clock s) 1,
       heatmaps_loss_meter := hm, push_loss_meter := pm, pull_loss_meter := um,
       trace := trace s @ [Forward Student, Forward Teacher, Zero_grad, bw, Opt_step],
       batch_time := meter_update (batch_time s) (clock_batch b - end_clock s) 1,
       end_clock := clock_end b\<rparr>"

subsection \<open>Observations on traces\<close>

text \<open>The events added between two states.\<close>

definition new_events :: "'x state \<Rightarrow> 'x state \<Rightarrow> 'x event list" where
  "new_events s s' = drop (length (trace s)) (trace s')"

fun is_log_event :: "'x event \<Rightarrow> bool" where
  "is_log_event (Log_info m) = True"
| "is_log_event (Add_scalar tag v g) = True"
| "is_log_event (Save_debug_images h m y p) = True"
| "is_log_event e = False"

fun is_optim_event :: "'x event \<Rightarrow> bool" where
  "is_optim_event Zero_grad = True"
| "is_optim_event (Loss_backward r) = True"
| "is_optim_event (Opt_backward v) = True"
| "is_optim_event Opt_step = True"
| "is_optim_event e = False"

text \<open>The tags of the \<open>add_scalar\<close> calls of a trace, in order.\<close>

fun scalar_tags :: "'x event list \<Rightarrow> string list" where
  "scalar_tags [] = []"
| "scalar_tags (Add_scalar tag v g # es) = tag # scalar_tags es"
| "scalar_tags (e # es) = scalar_tags es"

text \<open>The loss a backward call was given.\<close>

fun backward_value :: "'x event \<Rightarrow> real option" where
  "backward_value (Loss_backward r) = Some r"
| "backward_value (Opt_backward v) = Some (val_of v)"
| "backward_value e = None"

subsection \<open>A concrete instance\<close>

text \<open>
  Tensors are real numbers, \<open>mean(dim=0)\<close> is the identity, and a meter reads the value of
  its last update. The loss factory takes the squared distance of each output to the
  heatmap and joint targets; a mask of \<open>0\<close> switches the heatmaps loss of its stage off, and
  there is no pull loss.
\<close>

definition demo_factory :: "real list \<Rightarrow> real list \<Rightarrow> real list \<Rightarrow> real list \<Rightarrow> real losses" where
  "demo_factory outs hms mks jts =
     (map (\<lambda>(y, h, m). if m = 0 then None else Some ((y - h) * (y - h))) (zip outs (zip hms mks)),
      map (\<lambda>(y, j). Some ((y - j) * (y - j))) (zip outs jts),
      map (\<lambda>y. None) outs)"

definition demo_fw :: "real framework" where
  "demo_fw = \<lparr>loss_factory = demo_factory, mean_dim0 = (\<lambda>t. t),
              meter_val = (\<lambda>m. if m = [] then 0 else fst (last m))\<rparr>"

definition demo_cfg :: config where
  "demo_cfg = \<lparr>NUM_STAGES = 2, PRINT_FREQ = 1, RANK = 0, OUTPUT_SIZE = [128, 256]\<rparr>"

definition demo_batch :: "real batch" where
  "demo_batch = \<lparr>images_size0 = 4, heatmaps = [1, 2], masks = [1, 1], joints = [0, 0],
                 student_outputs = [3, 2], teacher_outputs = [1, 3],
                 clock_data = 1, clock_batch = 3, clock_end = 3\<rparr>"

definition demo_dict :: "string \<rightharpoonup> pyobj" where
  "demo_dict = [''writer'' \<mapsto> SummaryWriter, ''train_global_steps'' \<mapsto> PyInt 7]"

definition demo_state :: "real state" where
  "demo_state = init_state demo_cfg demo_dict 0"

text \<open>A batch whose first stage has no heatmaps loss but a push loss.\<close>

definition masked_batch :: "real batch" where
  "masked_batch = demo_batch\<lparr>masks := [0, 1]\<rparr>"

subsection \<open>Readings of the specification\<close>

text \<open>
  The sum of a loss as the specification words it: over the stages, every heatmaps, push
  and pull loss that is not \<open>None\<close>, each averaged over dimension 0.
\<close>

definition flat_sum :: "'x framework \<Rightarrow> config \<Rightarrow> 'x losses \<Rightarrow> real" where
  "flat_sum fw cfg ls =
     (case ls of (hs, ps, us) \<Rightarrow>
        sum_list (map (\<lambda>idx. part_term fw (hs ! idx) + part_term fw (ps ! idx) + part_term fw (us ! idx))
          (py_range (NUM_STAGES cfg))))"

section \<open>Properties\<close>

subsection \<open>Auxiliary lemmas\<close>

lemma ebind_Inr: "ebind m f = Inr y \<longleftrightarrow> (\<exists>x. m = Inr x \<and> f x = Inr y)"
  by (cases m) (simp_all add: ebind_def)

lemma ebind_Inr_simp [simp]: "ebind (Inr x) f = f x"
  by (simp add: ebind_def)

lemma ebind_Inl_simp [simp]: "ebind (Inl e) f = Inl e"
  by (simp add: ebind_def)

lemma get_Inr: "get xs i = Inr x \<longleftrightarrow> i < length xs \<and> x = xs ! i"
  by (auto simp: get_def)

lemma scalar_events_trace [simp]: "scalar_events fw i gs (s\<lparr>trace := t\<rparr>) = scalar_events fw i gs s"
  by (rule ext) (simp add: scalar_events_def)

lemma scalar_step_Inr:
  assumes "scalar_step fw i w gs idx s = Inr s'"
  shows "s' = s\<lparr>trace := trace s @ scalar_events fw i gs s idx\<rparr>"
  using assms
  by (auto simp: scalar_step_def ebind_Inr get_Inr emit_def scalar_events_def split: pyobj.splits)

lemma scalar_loop_Inr:
  "for_each (scalar_step fw i w gs) idxs s = Inr s' \<Longrightarrow>
   s' = s\<lparr>trace := trace s @ concat (map (scalar_events fw i gs s) idxs)\<rparr>"
proof (induction idxs arbitrary: s)
  case Nil
  then show ?case by simp
next
  case (Cons k idxs)
  from Cons.prems obtain s1 where s1: "scalar_step fw i w gs k s = Inr s1"
    and rest: "for_each (scalar_step fw i w gs) idxs s1 = Inr s'"
    by (auto simp: ebind_Inr)
  from scalar_step_Inr [OF s1] Cons.IH [OF rest] show ?case by simp
qed

lemma save_step_Inr:
  assumes "save_step cfg b prefix k s = Inr s'"
  shows "s' = s\<lparr>trace := trace s @ [save_event cfg b prefix k]\<rparr>"
  using assms by (auto simp: save_step_def ebind_Inr get_Inr emit_def save_event_def)

lemma save_loop_Inr:
  "for_each (save_step cfg b prefix) idxs s = Inr s' \<Longrightarrow>
   s' = s\<lparr>trace := trace s @ map (save_event cfg b prefix) idxs\<rparr>"
proof (induction idxs arbitrary: s)
  case Nil
  then show ?case by simp
next
  case (Cons k idxs)
  from Cons.prems obtain s1 where s1: "save_step cfg b prefix k s = Inr s1"
    and rest: "for_each (save_step cfg b prefix) idxs s1 = Inr s'"
    by (auto simp: ebind_Inr)
  from save_step_Inr [OF s1] Cons.IH [OF rest] show ?case by simp
qed

lemma log_step_quiet:
  assumes "log_step fw cfg epoch n_batches output_dir i b s = Inr s'" and "\<not> logging_due cfg i"
  shows "s' = s"
  using assms by (auto simp: log_step_def logging_due_def split: if_splits)

lemma log_step_due:
  assumes "log_step fw cfg epoch n_batches output_dir i b s = Inr s'" and "logging_due cfg i"
  shows "\<exists>k. writer_dict s ''train_global_steps'' = Some (PyInt k) \<and>
           s' = s\<lparr>writer_dict := (writer_dict s)(''train_global_steps'' \<mapsto> PyInt (k + 1)),
                  trace := trace s @ log_events fw cfg epoch n_batches output_dir i b (PyInt k) s\<rparr>"
proof -
  from assms obtain speed w gs s2 steps where
    speed: "py_truediv (real (images_size0 b)) (meter_val fw (batch_time s)) = Inr speed"
    and gs: "lookup (writer_dict s) ''train_global_steps'' = Inr gs"
    and loop: "for_each (scalar_step fw i w gs) (py_range (NUM_STAGES cfg))
                (emit (Log_info
                   \<lparr>msg_epoch = epoch, msg_index = i, msg_total = n_batches,
                    msg_batch_time = batch_time s, msg_speed = speed,
                    msg_data_time = data_time s,
                    msg_heatmaps_loss = get_loss_info (heatmaps_loss_meter s) ''heatmaps'',
                    msg_push_loss = get_loss_info (push_loss_meter s) ''push'',
                    msg_pull_loss = get_loss_info (pull_loss_meter s) ''pull''\<rparr>) s) = Inr s2"
    and steps: "bump_steps gs = Inr steps"
    and saves: "for_each (save_step cfg b (path_join output_dir ''train'' @ ''_'' @ str_nat i))
            [0..<length (student_outputs b)]
            (s2\<lparr>writer_dict := (writer_dict s2)(''train_global_steps'' \<mapsto> steps)\<rparr>) = Inr s'"
    by (auto simp: log_step_def logging_due_def ebind_Inr split: if_splits)
  from steps obtain k where k: "gs = PyInt k" "steps = PyInt (k + 1)"
    by (auto simp: bump_steps_def split: pyobj.splits)
  from gs k have wd: "writer_dict s ''train_global_steps'' = Some (PyInt k)"
    by (auto simp: lookup_def split: option.splits)
  from speed have sp: "speed = real (images_size0 b) / meter_val fw (batch_time s)"
    by (auto simp: py_truediv_def split: if_splits)
  show ?thesis
    using scalar_loop_Inr [OF loop] save_loop_Inr [OF saves] wd k sp
    by (simp add: log_events_def log_message_def emit_def scalar_events_def)
qed

lemma update_at_Inr: "update_at ms idx v n = Inr ms' \<longleftrightarrow>
    idx < length ms \<and> ms' = ms[idx := meter_update (ms ! idx) v n]"
  by (auto simp: update_at_def)

lemma student_part_Inr:
  assumes "student_part fw n part idx (l, ms) = Inr (l', ms')"
  shows "val_of l' = val_of l + part_term fw part"
    and "length ms' = length ms"
    and "\<And>k. k < length ms \<Longrightarrow> ms' ! k = (if k = idx then part_meter fw n part (ms ! k) else ms ! k)"
    and "part = None \<Longrightarrow> l' = l"
  using assms
  by (auto simp: student_part_def part_term_def part_meter_def ebind_Inr update_at_Inr
      add_tensor_def split: option.splits)

lemma student_stage_None:
  assumes "get hs idx = Inr None"
  shows "student_stage fw n (hs, ps, us) idx a = Inr a"
  using assms by (cases a) (simp add: student_stage_def)

lemma student_stage_Inr:
  assumes "student_stage fw n (hs, ps, us) idx (l, hm, pm, um) = Inr (l', hm', pm', um')"
  shows "val_of l' = val_of l + stage_term fw (hs, ps, us) idx \<and>
    length hm' = length hm \<and> length pm' = length pm \<and> length um' = length um \<and>
    (\<forall>k<length hm. hm' ! k = (if k = idx then part_meter fw n (hs ! k) (hm ! k) else hm ! k)) \<and>
    (\<forall>k<length pm. pm' ! k =
        (if k = idx \<and> hs ! k \<noteq> None then part_meter fw n (ps ! k) (pm ! k) else pm ! k)) \<and>
    (\<forall>k<length um. um' ! k =
        (if k = idx \<and> hs ! k \<noteq> None then part_meter fw n (us ! k) (um ! k) else um ! k))"
proof -
  from assms have in_range: "idx < length hs"
    by (auto simp: student_stage_def ebind_Inr get_Inr)
  show ?thesis
  proof (cases "hs ! idx")
    case None
    with assms in_range show ?thesis
      by (auto simp: student_stage_def get_def stage_term_def part_meter_def)
  next
    case (Some h)
    from assms in_range Some obtain l2 where
      hm': "hm' = hm[idx := meter_update (hm ! idx) (mean_dim0 fw h) n]" "idx < length hm"
      and p: "idx < length ps"
        "student_part fw n (ps ! idx) idx (add_tensor l (mean_dim0 fw h), pm) = Inr (l2, pm')"
      and u: "idx < length us" "student_part fw n (us ! idx) idx (l2, um) = Inr (l', um')"
      by (auto simp: student_stage_def get_def ebind_Inr update_at_Inr split: if_splits)
    note P = student_part_Inr [OF p(2)] and U = student_part_Inr [OF u(2)]
    show ?thesis
      using P(1,2,3) U(1,2,3) hm' Some
      by (auto simp: stage_term_def add_tensor_def part_meter_def)
  qed
qed

lemma student_for_each:
  "for_each (student_stage fw n (hs, ps, us)) idxs (l, hm, pm, um) = Inr (l', hm', pm', um') \<Longrightarrow>
   distinct idxs \<Longrightarrow>
   val_of l' = val_of l + sum_list (map (stage_term fw (hs, ps, us)) idxs) \<and>
   length hm' = length hm \<and> length pm' = length pm \<and> length um' = length um \<and>
   (\<forall>k<length hm. hm' ! k = (if k \<in> set idxs then part_meter fw n (hs ! k) (hm ! k) else hm ! k)) \<and>
   (\<forall>k<length pm. pm' ! k =
      (if k \<in> set idxs \<and> hs ! k \<noteq> None then part_meter fw n (ps ! k) (pm ! k) else pm ! k)) \<and>
   (\<forall>k<length um. um' ! k =
      (if k \<in> set idxs \<and> hs ! k \<noteq> None then part_meter fw n (us ! k) (um ! k) else um ! k))"
proof (induction idxs arbitrary: l hm pm um)
  case Nil
  then show ?case by simp
next
  case (Cons j idxs)
  from Cons.prems(1) obtain l1 hm1 pm1 um1 where
    first: "student_stage fw n (hs, ps, us) j (l, hm, pm, um) = Inr (l1, hm1, pm1, um1)"
    and rest: "for_each (student_stage fw n (hs, ps, us)) idxs (l1, hm1, pm1, um1)
               = Inr (l', hm', pm', um')"
    by (auto simp: ebind_Inr)
  from Cons.prems(2) have d: "distinct idxs" and j: "j \<notin> set idxs" by simp_all
  note S = student_stage_Inr [OF first] and R = Cons.IH [OF rest d]
  have "val_of l' = val_of l + sum_list (map (stage_term fw (hs, ps, us)) (j # idxs))"
    using S R by simp
  moreover have "length hm' = length hm" "length pm' = length pm" "length um' = length um"
    using S R by simp_all
  moreover have "\<forall>k<length hm. hm' ! k =
      (if k \<in> set (j # idxs) then part_meter fw n (hs ! k) (hm ! k) else hm ! k)"
    using S R j by auto
  moreover have "\<forall>k<length pm. pm' ! k =
      (if k \<in> set (j # idxs) \<and> hs ! k \<noteq> None then part_meter fw n (ps ! k) (pm ! k) else pm ! k)"
    using S R j by auto
  moreover have "\<forall>k<length um. um' ! k =
      (if k \<in> set (j # idxs) \<and> hs ! k \<noteq> None then part_meter fw n (us ! k) (um ! k) else um ! k)"
    using S R j by auto
  ultimately show ?case by blast
qed

lemma teacher_part_val: "val_of (teacher_part fw part l) = val_of l + part_term fw part"
  by (simp add: teacher_part_def part_term_def add_tensor_def split: option.splits)

lemma teacher_stage_Inr:
  assumes "teacher_stage fw (hs, ps, us) idx l = Inr l'"
  shows "val_of l' = val_of l + stage_term fw (hs, ps, us) idx"
  using assms
  by (cases "hs ! idx")
    (auto simp: teacher_stage_def ebind_Inr get_Inr stage_term_def teacher_part_val add_tensor_def)

lemma teacher_for_each:
  "for_each (teacher_stage fw (hs, ps, us)) idxs l = Inr l' \<Longrightarrow>
   val_of l' = val_of l + sum_list (map (stage_term fw (hs, ps, us)) idxs)"
proof (induction idxs arbitrary: l)
  case Nil
  then show ?case by simp
next
  case (Cons j idxs)
  from Cons.prems obtain l1 where first: "teacher_stage fw (hs, ps, us) j l = Inr l1"
    and rest: "for_each (teacher_stage fw (hs, ps, us)) idxs l1 = Inr l'"
    by (auto simp: ebind_Inr)
  from teacher_stage_Inr [OF first] Cons.IH [OF rest] show ?case by simp
qed

lemma teacher_loop_val:
  assumes "teacher_loop fw cfg ls = Inr t_loss"
  shows "val_of t_loss = nested_sum fw cfg ls"
proof -
  obtain hs ps us where ls: "ls = (hs, ps, us)" by (cases ls) auto
  from assms show ?thesis
    unfolding ls teacher_loop_def nested_sum_def
    by (auto dest: teacher_for_each)
qed

lemma student_loop_val:
  assumes "student_loop fw cfg n ls ms = Inr (s_loss, ms')"
  shows "val_of s_loss = nested_sum fw cfg ls"
proof -
  obtain hs ps us where ls: "ls = (hs, ps, us)" by (cases ls) auto
  obtain hm pm um where ms: "ms = (hm, pm, um)" by (cases ms) auto
  obtain hm' pm' um' where ms': "ms' = (hm', pm', um')" by (cases ms') auto
  from assms have "for_each (student_stage fw n (hs, ps, us)) (py_range (NUM_STAGES cfg))
      (PyNum 0, hm, pm, um) = Inr (s_loss, hm', pm', um')"
    by (simp add: student_loop_def ls ms ms')
  from student_for_each [OF this] show ?thesis
    by (simp add: nested_sum_def ls py_range_def)
qed

lemma train_iter_Inr:
  assumes "train_iter fw cfg fp16 epoch n_batches output_dir i b s = Inr s'"
  obtains s_loss hm pm um t_loss bw where
    "student_loop fw cfg (images_size0 b) (student_losses fw b)
       (heatmaps_loss_meter s, push_loss_meter s, pull_loss_meter s) = Inr (s_loss, hm, pm, um)"
    and "teacher_loop fw cfg (teacher_losses fw b) = Inr t_loss"
    and "backward_call fp16 (blend s_loss t_loss) = Inr bw"
    and "log_step fw cfg epoch n_batches output_dir i b (iter_state b hm pm um bw s) = Inr s'"
  using assms
  by (auto simp: train_iter_def Let_def ebind_Inr backprop_def emit_def iter_state_def)

lemma scalar_events_are_log [simp]:
  "filter is_log_event (scalar_events fw i gs s idx) = scalar_events fw i gs s idx"
  "filter is_optim_event (scalar_events fw i gs s idx) = []"
  by (simp_all add: scalar_events_def)

lemma save_event_is_log [simp]:
  "is_log_event (save_event cfg b prefix k)" "\<not> is_optim_event (save_event cfg b prefix k)"
  by (simp_all add: save_event_def)

lemma log_events_are_log [simp]:
  "filter is_log_event (log_events fw cfg epoch n out i b gs s) = log_events fw cfg epoch n out i b gs s"
  by (simp add: log_events_def filter_concat comp_def filter_map)

lemma log_events_not_optim [simp]:
  "filter is_optim_event (log_events fw cfg epoch n out i b gs s) = []"
  by (simp add: log_events_def filter_concat comp_def filter_map)

lemma backward_call_cases:
  assumes "backward_call fp16 v = Inr bw"
  shows "bw = (if fp16 then Opt_backward v else Loss_backward (val_of v))"
  using assms by (auto simp: backward_call_def split: if_splits pyval.splits)

lemma train_iter_events:
  assumes "train_iter fw cfg fp16 epoch n out i b s = Inr s'"
  obtains s_loss hm pm um t_loss bw logs where
    "student_loop fw cfg (images_size0 b) (student_losses fw b)
       (heatmaps_loss_meter s, push_loss_meter s, pull_loss_meter s) = Inr (s_loss, hm, pm, um)"
    and "teacher_loop fw cfg (teacher_losses fw b) = Inr t_loss"
    and "backward_call fp16 (blend s_loss t_loss) = Inr bw"
    and "trace s' = trace s @ [Forward Student, Forward Teacher, Zero_grad, bw, Opt_step] @ logs"
    and "heatmaps_loss_meter s' = hm" and "push_loss_meter s' = pm" and "pull_loss_meter s' = um"
    and "logging_due cfg i \<Longrightarrow> \<exists>k. writer_dict s ''train_global_steps'' = Some (PyInt k) \<and>
           writer_dict s' = (writer_dict s)(''train_global_steps'' \<mapsto> PyInt (k + 1)) \<and>
           logs = log_events fw cfg epoch n out i b (PyInt k) (iter_state b hm pm um bw s)"
    and "\<not> logging_due cfg i \<Longrightarrow> logs = [] \<and> writer_dict s' = writer_dict s"
proof -
  from train_iter_Inr [OF assms] obtain s_loss hm pm um t_loss bw where
    st: "student_loop fw cfg (images_size0 b) (student_losses fw b)
       (heatmaps_loss_meter s, push_loss_meter s, pull_loss_meter s) = Inr (s_loss, hm, pm, um)"
    and te: "teacher_loop fw cfg (teacher_losses fw b) = Inr t_loss"
    and bw: "backward_call fp16 (blend s_loss t_loss) = Inr bw"
    and lg: "log_step fw cfg epoch n out i b (iter_state b hm pm um bw s) = Inr s'"
    by blast
  let ?s5 = "iter_state b hm pm um bw s"
  show ?thesis
  proof (cases "logging_due cfg i")
    case True
    from log_step_due [OF lg True] obtain k where
      k: "writer_dict ?s5 ''train_global_steps'' = Some (PyInt k)"
      and s': "s' = ?s5\<lparr>writer_dict := (writer_dict ?s5)(''train_global_steps'' \<mapsto> PyInt (k + 1)),
                  trace := trace ?s5 @ log_events fw cfg epoch n out i b (PyInt k) ?s5\<rparr>"
      by blast
    show ?thesis
      by (rule that [OF st te bw, of "log_events fw cfg epoch n out i b (PyInt k) ?s5"])
        (use True k s' in \<open>auto simp: iter_state_def\<close>)
  next
    case False
    from log_step_quiet [OF lg False] have "s' = ?s5" .
    then show ?thesis
      by (intro that [OF st te bw, of "[]"]) (use False in \<open>auto simp: iter_state_def\<close>)
  qed
qed

lemmas demo_defs = demo_factory_def demo_fw_def demo_cfg_def demo_batch_def demo_dict_def
  demo_state_def init_state_def

lemmas run_defs = train_iter_def student_loop_def teacher_loop_def student_stage_def
  teacher_stage_def student_part_def teacher_part_def update_at_def get_def py_range_def
  student_losses_def teacher_losses_def blend_def alpha_def backprop_def backward_call_def
  log_step_def scalar_step_def save_step_def bump_steps_def lookup_def py_truediv_def
  emit_def add_tensor_def meter_update_def AverageMeter_def get_loss_info_def
  Let_def

lemma upt2: "[0..<2] = [0, Suc 0]"
  by (simp add: numeral_2_eq_2)

lemma student_stage_skip_eq:
  assumes "idx < length hs" and "hs ! idx = None"
  shows "student_stage fw n (hs, ps[idx := p], us[idx := u]) k a = student_stage fw n (hs, ps, us) k a"
proof (cases "k = idx")
  case True
  with assms show ?thesis by (cases a) (simp add: student_stage_def get_def)
next
  case False
  then show ?thesis by (cases a) (simp add: student_stage_def get_def split: option.splits)
qed

lemma teacher_stage_skip_eq:
  assumes "idx < length hs" and "hs ! idx = None"
  shows "teacher_stage fw (hs, ps[idx := p], us[idx := u]) k l = teacher_stage fw (hs, ps, us) k l"
proof (cases "k = idx")
  case True
  with assms show ?thesis by (simp add: teacher_stage_def get_def)
next
  case False
  then show ?thesis by (simp add: teacher_stage_def get_def split: option.splits)
qed

subsection \<open>The claims\<close>

text \<open>
  Claim C8. A stage whose heatmaps loss is \<open>None\<close> contributes nothing, whatever its push and
  pull losses are: the body of the student's loop and the body of the teacher's loop leave
  their accumulators (loss and meters) as they were, and replacing the push and pull losses
  of that stage by anything else changes the result of neither loop.
\<close>

theorem push_pull_need_heatmaps:
  assumes "idx < length hs" and "hs ! idx = None"
  shows "student_stage fw n (hs, ps, us) idx a = Inr a \<and>
         teacher_stage fw (hs, ps, us) idx l = Inr l \<and>
         student_loop fw cfg n (hs, ps[idx := p], us[idx := u]) ms = student_loop fw cfg n (hs, ps, us) ms \<and>
         teacher_loop fw cfg (hs, ps[idx := p], us[idx := u]) = teacher_loop fw cfg (hs, ps, us)"
proof -
  have "student_stage fw n (hs, ps[idx := p], us[idx := u]) = student_stage fw n (hs, ps, us)"
    by (intro ext) (rule student_stage_skip_eq [OF assms])
  moreover have "teacher_stage fw (hs, ps[idx := p], us[idx := u]) = teacher_stage fw (hs, ps, us)"
    by (intro ext) (rule teacher_stage_skip_eq [OF assms])
  moreover have "student_stage fw n (hs, ps, us) idx a = Inr a"
    using assms by (cases a) (simp add: student_stage_def get_def)
  moreover have "teacher_stage fw (hs, ps, us) idx l = Inr l"
    using assms by (simp add: teacher_stage_def get_def)
  ultimately show ?thesis
    by (simp add: student_loop_def teacher_loop_def)
qed

text \<open>The same at a stage with a push and a pull loss and no heatmaps loss.\<close>

theorem push_pull_need_heatmaps_witness:
  "(0::nat) < length [None, Some (1::real)] \<and> [None, Some (1::real)] ! 0 = None \<and>
   student_stage demo_fw 4 ([None, Some 1], [Some 5, None], [Some 6, None]) 0
     (PyNum 0, [[], []], [[], []], [[], []]) = Inr (PyNum 0, [[], []], [[], []], [[], []]) \<and>
   teacher_stage demo_fw ([None, Some 1], [Some 5, None], [Some 6, None]) 0 (PyNum 0) = Inr (PyNum 0) \<and>
   student_loop demo_fw demo_cfg 4 ([None, Some 1], [Some 5, None][0 := Some 8], [Some 6, None][0 := None])
       ([[], []], [[], []], [[], []])
     = student_loop demo_fw demo_cfg 4 ([None, Some 1], [Some 5, None], [Some 6, None])
       ([[], []], [[], []], [[], []]) \<and>
   teacher_loop demo_fw demo_cfg ([None, Some 1], [Some 5, None][0 := Some 8], [Some 6, None][0 := None])
     = teacher_loop demo_fw demo_cfg ([None, Some 1], [Some 5, None], [Some 6, None])"
proof -
  have h1: "(0::nat) < length [None, Some (1::real)]" by simp
  have h2: "[None, Some (1::real)] ! 0 = None" by simp
  show ?thesis
    using h1 h2 push_pull_need_heatmaps [OF h1 h2, of demo_fw 4 "[Some 5, None]" "[Some 6, None]"
        "(PyNum 0, [[], []], [[], []], [[], []])" "PyNum 0" demo_cfg "Some 8" None "([[], []], [[], []], [[], []])"]
    by simp
qed

text \<open>
  Claim C7. After an iteration that completes, each meter of a stage below \<open>NUM_STAGES\<close> has
  received exactly the updates the student's losses call for, each weighted by
  \<open>images.size(0)\<close> (a push or pull meter only where the heatmaps loss of the stage is there),
  every other meter is as it was, and the teacher's outputs have no part in it: with any
  other teacher outputs the three meter lists end the same.
\<close>

theorem meters_follow_student_only:
  assumes "train_iter fw cfg fp16 epoch n out i b s = Inr s'"
    and "student_losses fw b = (hs, ps, us)"
  shows "length (heatmaps_loss_meter s') = length (heatmaps_loss_meter s) \<and>
         length (push_loss_meter s') = length (push_loss_meter s) \<and>
         length (pull_loss_meter s') = length (pull_loss_meter s) \<and>
         (\<forall>k<length (heatmaps_loss_meter s). heatmaps_loss_meter s' ! k =
            (if k < nat (NUM_STAGES cfg)
             then part_meter fw (images_size0 b) (hs ! k) (heatmaps_loss_meter s ! k)
             else heatmaps_loss_meter s ! k)) \<and>
         (\<forall>k<length (push_loss_meter s). push_loss_meter s' ! k =
            (if k < nat (NUM_STAGES cfg) \<and> hs ! k \<noteq> None
             then part_meter fw (images_size0 b) (ps ! k) (push_loss_meter s ! k)
             else push_loss_meter s ! k)) \<and>
         (\<forall>k<length (pull_loss_meter s). pull_loss_meter s' ! k =
            (if k < nat (NUM_STAGES cfg) \<and> hs ! k \<noteq> None
             then part_meter fw (images_size0 b) (us ! k) (pull_loss_meter s ! k)
             else pull_loss_meter s ! k)) \<and>
         (\<forall>t s''. train_iter fw cfg fp16 epoch n out i (b\<lparr>teacher_outputs := t\<rparr>) s = Inr s'' \<longrightarrow>
            heatmaps_loss_meter s'' = heatmaps_loss_meter s' \<and>
            push_loss_meter s'' = push_loss_meter s' \<and>
            pull_loss_meter s'' = pull_loss_meter s')"
proof -
  from assms(1) obtain s_loss hm pm um where
    st: "student_loop fw cfg (images_size0 b) (student_losses fw b)
       (heatmaps_loss_meter s, push_loss_meter s, pull_loss_meter s) = Inr (s_loss, hm, pm, um)"
    and m: "heatmaps_loss_meter s' = hm" "push_loss_meter s' = pm" "pull_loss_meter s' = um"
    by (rule train_iter_events)
  from st have "for_each (student_stage fw (images_size0 b) (hs, ps, us)) [0..<nat (NUM_STAGES cfg)]
      (PyNum 0, heatmaps_loss_meter s, push_loss_meter s, pull_loss_meter s) = Inr (s_loss, hm, pm, um)"
    by (simp add: student_loop_def py_range_def assms(2))
  from student_for_each [OF this] have per_stage:
    "length hm = length (heatmaps_loss_meter s) \<and> length pm = length (push_loss_meter s) \<and>
     length um = length (pull_loss_meter s) \<and>
     (\<forall>k<length (heatmaps_loss_meter s). hm ! k =
        (if k < nat (NUM_STAGES cfg)
         then part_meter fw (images_size0 b) (hs ! k) (heatmaps_loss_meter s ! k)
         else heatmaps_loss_meter s ! k)) \<and>
     (\<forall>k<length (push_loss_meter s). pm ! k =
        (if k < nat (NUM_STAGES cfg) \<and> hs ! k \<noteq> None
         then part_meter fw (images_size0 b) (ps ! k) (push_loss_meter s ! k)
         else push_loss_meter s ! k)) \<and>
     (\<forall>k<length (pull_loss_meter s). um ! k =
        (if k < nat (NUM_STAGES cfg) \<and> hs ! k \<noteq> None
         then part_meter fw (images_size0 b) (us ! k) (pull_loss_meter s ! k)
         else pull_loss_meter s ! k))"
    by simp
  have other: "heatmaps_loss_meter s'' = hm \<and> push_loss_meter s'' = pm \<and> pull_loss_meter s'' = um"
    if run: "train_iter fw cfg fp16 epoch n out i (b\<lparr>teacher_outputs := t\<rparr>) s = Inr s''" for t s''
  proof -
    from run obtain s_loss2 hm2 pm2 um2 where
      st2: "student_loop fw cfg (images_size0 (b\<lparr>teacher_outputs := t\<rparr>))
         (student_losses fw (b\<lparr>teacher_outputs := t\<rparr>))
         (heatmaps_loss_meter s, push_loss_meter s, pull_loss_meter s) = Inr (s_loss2, hm2, pm2, um2)"
      and m2: "heatmaps_loss_meter s'' = hm2" "push_loss_meter s'' = pm2" "pull_loss_meter s'' = um2"
      by (rule train_iter_events)
    from st2 st have "hm2 = hm \<and> pm2 = pm \<and> um2 = um"
      by (simp add: student_losses_def)
    with m2 show ?thesis by simp
  qed
  from per_stage other m show ?thesis by blast
qed

text \<open>The meters of the concrete instance after one iteration.\<close>

theorem meters_follow_student_only_witness:
  "heatmaps_loss_meter (projr (train_iter demo_fw demo_cfg False 0 1 ''out'' 0 demo_batch demo_state))
     = [[(4, 4)], [(0, 4)]] \<and>
   push_loss_meter (projr (train_iter demo_fw demo_cfg False 0 1 ''out'' 0 demo_batch demo_state))
     = [[(9, 4)], [(4, 4)]] \<and>
   pull_loss_meter (projr (train_iter demo_fw demo_cfg False 0 1 ''out'' 0 demo_batch demo_state))
     = [[], []] \<and>
   heatmaps_loss_meter (projr (train_iter demo_fw demo_cfg False 0 1 ''out'' 0
       (demo_batch\<lparr>teacher_outputs := [7, 7]\<rparr>) demo_state)) = [[(4, 4)], [(0, 4)]]"
proof -
  let ?r = "train_iter demo_fw demo_cfg False 0 1 ''out'' 0 demo_batch demo_state"
  let ?r2 = "train_iter demo_fw demo_cfg False 0 1 ''out'' 0 (demo_batch\<lparr>teacher_outputs := [7, 7]\<rparr>) demo_state"
  have run: "?r = Inr (projr ?r)"
    by (simp add: demo_defs run_defs upt2 enumerate_eq_zip)
  have run2: "?r2 = Inr (projr ?r2)"
    by (simp add: demo_defs run_defs upt2 enumerate_eq_zip)
  have ls: "student_losses demo_fw demo_batch = ([Some 4, Some 0], [Some 9, Some 4], [None, None])"
    by (simp add: demo_defs student_losses_def)
  have len: "length (heatmaps_loss_meter demo_state) = 2" "length (push_loss_meter demo_state) = 2"
    "length (pull_loss_meter demo_state) = 2"
    "heatmaps_loss_meter demo_state = [[], []]" "push_loss_meter demo_state = [[], []]"
    "pull_loss_meter demo_state = [[], []]"
    by (simp_all add: demo_defs py_range_def upt2 AverageMeter_def)
  note T = meters_follow_student_only [OF run ls]
  have all2: "(\<forall>k<2. P k) \<longleftrightarrow> P 0 \<and> P (Suc 0)" for P :: "nat \<Rightarrow> bool"
    by (auto simp: less_2_cases_iff)
  have two: "xs = [xs ! 0, xs ! Suc 0]" if "length xs = 2" for xs :: "meter list"
    using that by (cases xs; cases "tl xs"; auto)
  have L: "length (heatmaps_loss_meter (projr ?r)) = 2" "length (push_loss_meter (projr ?r)) = 2"
    "length (pull_loss_meter (projr ?r)) = 2"
    using T len by simp_all
  have vals: "heatmaps_loss_meter (projr ?r) ! 0 = [(4, 4)]" "heatmaps_loss_meter (projr ?r) ! Suc 0 = [(0, 4)]"
    "push_loss_meter (projr ?r) ! 0 = [(9, 4)]" "push_loss_meter (projr ?r) ! Suc 0 = [(4, 4)]"
    "pull_loss_meter (projr ?r) ! 0 = []" "pull_loss_meter (projr ?r) ! Suc 0 = []"
    using T by (simp_all add: len all2 part_meter_def meter_update_def demo_cfg_def demo_fw_def demo_batch_def)
  have same: "heatmaps_loss_meter (projr ?r2) = heatmaps_loss_meter (projr ?r)"
    using T run2 by blast
  show ?thesis
    using two [OF L(1)] two [OF L(2)] two [OF L(3)] vals same by simp
qed

lemma scalar_events_meters:
  assumes "heatmaps_loss_meter s1 = heatmaps_loss_meter s2" "push_loss_meter s1 = push_loss_meter s2"
    "pull_loss_meter s1 = pull_loss_meter s2"
  shows "scalar_events fw i gs s1 = scalar_events fw i gs s2"
  using assms by (intro ext) (simp add: scalar_events_def)

lemma new_events_append: "trace s' = trace s @ es \<Longrightarrow> new_events s s' = es"
  by (simp add: new_events_def)

lemma backward_not_log:
  assumes "backward_call fp16 v = Inr bw"
  shows "\<not> is_log_event bw" "is_optim_event bw" "backward_value bw = Some (val_of v)"
  using backward_call_cases [OF assms] by (simp_all split: if_splits)

lemma length_scalars:
  "length (concat (map (scalar_events fw i gs s) idxs)) = 3 * length idxs"
  by (induction idxs) (simp_all add: scalar_events_def)

text \<open>
  Claim C5. An iteration that completes at a batch index \<open>i\<close> with
  \<open>i % PRINT_FREQ == 0\<close> and \<open>RANK == 0\<close> emits one log message, then three scalars for
  each of the \<open>NUM_STAGES\<close> stages, then one call of \<open>save_debug_images\<close> for each scale of
  the student's output, and increments \<open>train_global_steps\<close> by one; at any other index it
  logs nothing and leaves the writer dictionary as it was.
\<close>

theorem logging_when_due:
  assumes "train_iter fw cfg fp16 epoch n out i b s = Inr s'"
  shows "if int i mod PRINT_FREQ cfg = 0 \<and> RANK cfg = 0
         then \<exists>k msg. writer_dict s ''train_global_steps'' = Some (PyInt k) \<and>
                writer_dict s' = (writer_dict s)(''train_global_steps'' \<mapsto> PyInt (k + 1)) \<and>
                filter is_log_event (new_events s s') =
                  Log_info msg
                    # concat (map (scalar_events fw i (PyInt k) s') (py_range (NUM_STAGES cfg)))
                    @ map (save_event cfg b (path_join out ''train'' @ ''_'' @ str_nat i))
                        [0..<length (student_outputs b)] \<and>
                length (concat (map (scalar_events fw i (PyInt k) s') (py_range (NUM_STAGES cfg))))
                  = 3 * nat (NUM_STAGES cfg)
         else filter is_log_event (new_events s s') = [] \<and> writer_dict s' = writer_dict s"
proof -
  from assms obtain s_loss hm pm um t_loss bw logs where
    bw: "backward_call fp16 (blend s_loss t_loss) = Inr bw"
    and tr: "trace s' = trace s @ [Forward Student, Forward Teacher, Zero_grad, bw, Opt_step] @ logs"
    and m: "heatmaps_loss_meter s' = hm" "push_loss_meter s' = pm" "pull_loss_meter s' = um"
    and due: "logging_due cfg i \<Longrightarrow> \<exists>k. writer_dict s ''train_global_steps'' = Some (PyInt k) \<and>
           writer_dict s' = (writer_dict s)(''train_global_steps'' \<mapsto> PyInt (k + 1)) \<and>
           logs = log_events fw cfg epoch n out i b (PyInt k) (iter_state b hm pm um bw s)"
    and quiet: "\<not> logging_due cfg i \<Longrightarrow> logs = [] \<and> writer_dict s' = writer_dict s"
    by (rule train_iter_events) blast
  have new: "filter is_log_event (new_events s s') = filter is_log_event logs"
    using new_events_append [OF tr] backward_not_log(1) [OF bw] by simp
  show ?thesis
  proof (cases "logging_due cfg i")
    case True
    from due [OF True] obtain k where
      k: "writer_dict s ''train_global_steps'' = Some (PyInt k)"
        "writer_dict s' = (writer_dict s)(''train_global_steps'' \<mapsto> PyInt (k + 1))"
        "logs = log_events fw cfg epoch n out i b (PyInt k) (iter_state b hm pm um bw s)"
      by blast
    have "scalar_events fw i (PyInt k) (iter_state b hm pm um bw s) = scalar_events fw i (PyInt k) s'"
      by (rule scalar_events_meters) (simp_all add: iter_state_def m)
    moreover have "filter is_log_event (new_events s s') = logs"
      using new k(3) by simp
    ultimately have "filter is_log_event (new_events s s') =
        Log_info (log_message fw epoch n i b (iter_state b hm pm um bw s))
          # concat (map (scalar_events fw i (PyInt k) s') (py_range (NUM_STAGES cfg)))
          @ map (save_event cfg b (path_join out ''train'' @ ''_'' @ str_nat i))
              [0..<length (student_outputs b)]"
      using k(3) by (simp add: log_events_def)
    with True k(1,2) show ?thesis
      by (auto simp: logging_due_def length_scalars py_range_def)
  next
    case False
    with quiet new show ?thesis by (auto simp: logging_due_def)
  qed
qed

lemma scalar_tags_append [simp]: "scalar_tags (xs @ ys) = scalar_tags xs @ scalar_tags ys"
  by (induction xs rule: scalar_tags.induct) simp_all

lemma scalar_tags_saves [simp]: "scalar_tags (map (save_event cfg b prefix) idxs) = []"
  by (induction idxs) (simp_all add: save_event_def)

lemma scalar_tags_scalars:
  "scalar_tags (concat (map (scalar_events fw i gs s) idxs)) =
     concat (map (\<lambda>idx. [scalar_tag i ''heatmaps'', scalar_tag idx ''push'', scalar_tag idx ''pull'']) idxs)"
  by (induction idxs) (simp_all add: scalar_events_def)

text \<open>
  Claim C6. In a logging iteration at batch index \<open>i\<close> the heatmaps scalar of every stage is
  written under the tag \<open>train_stage{i}_heatmaps_loss\<close>, made from the batch index, while the
  push and pull scalars of stage \<open>idx\<close> are written under tags made from \<open>idx\<close>.
\<close>

theorem heatmaps_tag_uses_batch_index:
  assumes "train_iter fw cfg fp16 epoch n out i b s = Inr s'"
    and "int i mod PRINT_FREQ cfg = 0 \<and> RANK cfg = 0"
  shows "scalar_tags (new_events s s') =
           concat (map (\<lambda>idx. [''train_stage'' @ str_nat i @ ''_heatmaps_loss'',
                               ''train_stage'' @ str_nat idx @ ''_push_loss'',
                               ''train_stage'' @ str_nat idx @ ''_pull_loss''])
                    (py_range (NUM_STAGES cfg)))"
proof -
  from assms(1) obtain s_loss hm pm um t_loss bw logs where
    bw: "backward_call fp16 (blend s_loss t_loss) = Inr bw"
    and tr: "trace s' = trace s @ [Forward Student, Forward Teacher, Zero_grad, bw, Opt_step] @ logs"
    and due: "logging_due cfg i \<Longrightarrow> \<exists>k. writer_dict s ''train_global_steps'' = Some (PyInt k) \<and>
           writer_dict s' = (writer_dict s)(''train_global_steps'' \<mapsto> PyInt (k + 1)) \<and>
           logs = log_events fw cfg epoch n out i b (PyInt k) (iter_state b hm pm um bw s)"
    by (rule train_iter_events) blast
  from assms(2) have "logging_due cfg i" by (simp add: logging_due_def)
  from due [OF this] obtain k where
    logs: "logs = log_events fw cfg epoch n out i b (PyInt k) (iter_state b hm pm um bw s)"
    by blast
  have "scalar_tags ([Forward Student, Forward Teacher, Zero_grad, bw, Opt_step] @ logs)
      = scalar_tags logs"
    using backward_call_cases [OF bw] by (cases fp16) simp_all
  then have "scalar_tags (new_events s s') = scalar_tags logs"
    using new_events_append [OF tr] by simp
  also have "\<dots> = concat (map (\<lambda>idx. [scalar_tag i ''heatmaps'', scalar_tag idx ''push'',
      scalar_tag idx ''pull'']) (py_range (NUM_STAGES cfg)))"
    by (simp add: logs log_events_def scalar_tags_scalars)
  finally show ?thesis by (simp add: scalar_tag_def)
qed

lemma val_of_blend: "val_of (blend a b) = val_of a * 0.5 + 0.5 * val_of b"
  by (cases a; cases b) (simp_all add: blend_def alpha_def)

text \<open>
  Claim C3, amended. An iteration that completes calls \<open>zero_grad\<close>, one backward and
  \<open>step\<close>, in this order and once each, and the loss given to the backward call is
  \<open>student_loss * 0.5 + 0.5 * teacher_loss\<close>, where each of the two is the sum over the stages
  of the heatmaps loss and, only at a stage whose heatmaps loss is not \<open>None\<close>, of the push
  and pull losses that are not \<open>None\<close>, each averaged over dimension 0.
\<close>

theorem blended_loss_backpropagated_once:
  assumes "train_iter fw cfg fp16 epoch n out i b s = Inr s'"
  shows "\<exists>bw. filter is_optim_event (new_events s s') = [Zero_grad, bw, Opt_step] \<and>
           backward_value bw =
             Some (nested_sum fw cfg (student_losses fw b) * 0.5
                   + 0.5 * nested_sum fw cfg (teacher_losses fw b))"
proof -
  from assms obtain s_loss hm pm um t_loss bw logs where
    st: "student_loop fw cfg (images_size0 b) (student_losses fw b)
       (heatmaps_loss_meter s, push_loss_meter s, pull_loss_meter s) = Inr (s_loss, hm, pm, um)"
    and te: "teacher_loop fw cfg (teacher_losses fw b) = Inr t_loss"
    and bw: "backward_call fp16 (blend s_loss t_loss) = Inr bw"
    and tr: "trace s' = trace s @ [Forward Student, Forward Teacher, Zero_grad, bw, Opt_step] @ logs"
    and due: "logging_due cfg i \<Longrightarrow> \<exists>k. writer_dict s ''train_global_steps'' = Some (PyInt k) \<and>
           writer_dict s' = (writer_dict s)(''train_global_steps'' \<mapsto> PyInt (k + 1)) \<and>
           logs = log_events fw cfg epoch n out i b (PyInt k) (iter_state b hm pm um bw s)"
    and quiet: "\<not> logging_due cfg i \<Longrightarrow> logs = [] \<and> writer_dict s' = writer_dict s"
    by (rule train_iter_events) blast
  have "filter is_optim_event logs = []"
    using due quiet by (cases "logging_due cfg i") auto
  then have "filter is_optim_event (new_events s s') = [Zero_grad, bw, Opt_step]"
    using new_events_append [OF tr] backward_not_log(2) [OF bw] by simp
  moreover have "backward_value bw = Some (nested_sum fw cfg (student_losses fw b) * 0.5
      + 0.5 * nested_sum fw cfg (teacher_losses fw b))"
    using backward_not_log(3) [OF bw] student_loop_val [OF st] teacher_loop_val [OF te]
    by (simp add: val_of_blend)
  ultimately show ?thesis by blast
qed

lemmas sum_defs = nested_sum_def flat_sum_def stage_term_def part_term_def py_range_def
  student_losses_def teacher_losses_def

text \<open>One logging iteration of the concrete instance: nine logging events, step 7 becomes 8.\<close>

theorem logging_when_due_witness:
  "writer_dict (projr (train_iter demo_fw demo_cfg False 0 1 ''out'' 0 demo_batch demo_state))
     ''train_global_steps'' = Some (PyInt 8) \<and>
   length (filter is_log_event (new_events demo_state
     (projr (train_iter demo_fw demo_cfg False 0 1 ''out'' 0 demo_batch demo_state)))) = 9"
proof -
  let ?r = "train_iter demo_fw demo_cfg False 0 1 ''out'' 0 demo_batch demo_state"
  have run: "?r = Inr (projr ?r)"
    by (simp add: demo_defs run_defs upt2 enumerate_eq_zip)
  have due: "int 0 mod PRINT_FREQ demo_cfg = 0 \<and> RANK demo_cfg = 0"
    by (simp add: demo_cfg_def)
  from logging_when_due [OF run] due obtain k msg where
    k: "writer_dict demo_state ''train_global_steps'' = Some (PyInt k)"
    and wd: "writer_dict (projr ?r) = (writer_dict demo_state)(''train_global_steps'' \<mapsto> PyInt (k + 1))"
    and ev: "filter is_log_event (new_events demo_state (projr ?r)) =
        Log_info msg # concat (map (scalar_events demo_fw 0 (PyInt k) (projr ?r)) (py_range (NUM_STAGES demo_cfg)))
          @ map (save_event demo_cfg demo_batch (path_join ''out'' ''train'' @ ''_'' @ str_nat 0))
              [0..<length (student_outputs demo_batch)]"
    and len: "length (concat (map (scalar_events demo_fw 0 (PyInt k) (projr ?r)) (py_range (NUM_STAGES demo_cfg))))
        = 3 * nat (NUM_STAGES demo_cfg)"
    by auto
  from k have "k = 7" by (simp add: demo_defs)
  with wd have "writer_dict (projr ?r) ''train_global_steps'' = Some (PyInt 8)" by simp
  moreover have "length (filter is_log_event (new_events demo_state (projr ?r))) = 9"
    unfolding ev using len by (simp add: demo_cfg_def demo_batch_def)
  ultimately show ?thesis by simp
qed

text \<open>At batch index 3 both stages write their heatmaps loss under \<open>train_stage3_heatmaps_loss\<close>.\<close>

theorem heatmaps_tag_uses_batch_index_witness:
  "scalar_tags (new_events demo_state
     (projr (train_iter demo_fw demo_cfg False 0 5 ''out'' 3 demo_batch demo_state))) =
   [''train_stage3_heatmaps_loss'', ''train_stage0_push_loss'', ''train_stage0_pull_loss'',
    ''train_stage3_heatmaps_loss'', ''train_stage1_push_loss'', ''train_stage1_pull_loss'']"
proof -
  let ?r = "train_iter demo_fw demo_cfg False 0 5 ''out'' 3 demo_batch demo_state"
  have run: "?r = Inr (projr ?r)"
    by (simp add: demo_defs run_defs upt2 enumerate_eq_zip)
  have due: "int 3 mod PRINT_FREQ demo_cfg = 0 \<and> RANK demo_cfg = 0"
    by (simp add: demo_cfg_def)
  from heatmaps_tag_uses_batch_index [OF run due] show ?thesis
    by (simp add: demo_cfg_def py_range_def upt2 str_nat.simps digit_char_def)
qed

text \<open>In the concrete instance the sum of the student is 17, that of the teacher 11, the loss 14.\<close>

theorem blended_loss_backpropagated_once_witness:
  "map backward_value (filter is_optim_event (new_events demo_state
     (projr (train_iter demo_fw demo_cfg False 0 1 ''out'' 0 demo_batch demo_state))))
   = [None, Some 14, None]"
proof -
  let ?r = "train_iter demo_fw demo_cfg False 0 1 ''out'' 0 demo_batch demo_state"
  have run: "?r = Inr (projr ?r)"
    by (simp add: demo_defs run_defs upt2 enumerate_eq_zip)
  have "nested_sum demo_fw demo_cfg (student_losses demo_fw demo_batch) = 17"
    "nested_sum demo_fw demo_cfg (teacher_losses demo_fw demo_batch) = 11"
    by (simp_all add: sum_defs demo_defs upt2)
  with blended_loss_backpropagated_once [OF run] show ?thesis by auto
qed

text \<open>
  Claim C3 as stated fails: with a first stage that has a push loss and no heatmaps loss,
  the loss backpropagated is 7, and the blend of the sums of all losses that are not
  \<open>None\<close> is 12.
\<close>

theorem flat_sum_counterexample:
  "isl (train_iter demo_fw demo_cfg False 0 1 ''out'' 0 masked_batch demo_state) = False \<and>
   map backward_value (filter is_optim_event (new_events demo_state
     (projr (train_iter demo_fw demo_cfg False 0 1 ''out'' 0 masked_batch demo_state))))
     = [None, Some 7, None] \<and>
   flat_sum demo_fw demo_cfg (student_losses demo_fw masked_batch) * 0.5
     + 0.5 * flat_sum demo_fw demo_cfg (teacher_losses demo_fw masked_batch) = 12"
  by (simp add: masked_batch_def demo_defs run_defs upt2 enumerate_eq_zip sum_defs new_events_def)

end
